theory Spec2Isabelle
  imports Main
begin

section \<open>Entities and the remote gateway\<close>

text \<open>
  The client keeps three Redux Toolkit slices (\<open>auth\<close>, \<open>blogs\<close>, \<open>comments\<close>) over a
  Supabase backend. The entity types \<open>User\<close>, \<open>Blog\<close> and \<open>Comment\<close> are declared in
  \<open>lib/supabase\<close>; the records below carry the fields that the slices and the pages
  read. The field \<open>id\<close> of the source is written \<open>id'\<close>, since \<open>id\<close> is the identity
  function of HOL. Timestamps and identifiers are opaque strings, JavaScript numbers
  that count or index are integers.
\<close>

record User =
  id' :: string
  email :: string

record Session =
  access_token :: string
  user :: User

record Blog =
  id' :: string
  user_id :: string
  title :: string
  content :: string
  image_url :: "string option"
  created_at :: string
  updated_at :: string

record Comment =
  id' :: string
  blog_id :: string
  user_id :: string
  content :: string
  file_url :: "string option"
  created_at :: string
  updated_at :: string

text \<open>A JavaScript error object; the thunks only ever read its \<open>message\<close>.\<close>

datatype js_error = Error (message: string)

text \<open>
  What a Supabase query resolves to, as the thunks destructure it: \<open>{ data, count, error }\<close>.
  The client library does not throw on a failed request, it resolves with \<open>error\<close> set.
  A query that ends in \<open>.single()\<close> resolves either to the row or to an error.
\<close>

record 'a PostgrestResponse =
  data :: "'a option"
  count :: "nat option"
  error :: "js_error option"

datatype 'a PostgrestSingleResponse = SingleSuccess 'a | SingleFailure js_error

datatype AuthResponse =
  AuthResponse (data_user: "User option") (data_session: "Session option")
    (auth_error: "js_error option")

datatype SessionResponse =
  SessionResponse (session_data: "Session option") (session_error: "js_error option")

text \<open>
  The gateway: one field for each request the slices issue. The remote side is opaque, so
  each field is the answer the gateway gives to that request.
\<close>

record gateway =
  auth_signUp :: "string \<Rightarrow> string \<Rightarrow> AuthResponse"
  auth_signInWithPassword :: "string \<Rightarrow> string \<Rightarrow> AuthResponse"
  auth_signOut :: "js_error option"
  auth_getSession :: SessionResponse
  from_blogs_select_count :: "Blog list PostgrestResponse"
  from_blogs_select_range :: "int \<Rightarrow> int \<Rightarrow> Blog list PostgrestResponse"
  from_blogs_select_single :: "string \<Rightarrow> Blog PostgrestSingleResponse"
  from_blogs_insert :: "string \<Rightarrow> string \<Rightarrow> string option \<Rightarrow> string \<Rightarrow> Blog PostgrestSingleResponse"
  from_blogs_update ::
    "string \<Rightarrow> string \<Rightarrow> string \<Rightarrow> string option \<Rightarrow> string \<Rightarrow> Blog PostgrestSingleResponse"
  from_blogs_delete :: "string \<Rightarrow> js_error option"
  from_comments_select :: "string \<Rightarrow> Comment list PostgrestResponse"
  from_comments_insert ::
    "string \<Rightarrow> string \<Rightarrow> string \<Rightarrow> string option \<Rightarrow> Comment PostgrestSingleResponse"
  from_comments_update ::
    "string \<Rightarrow> string \<Rightarrow> string option \<Rightarrow> string \<Rightarrow> Comment PostgrestSingleResponse"
  from_comments_delete :: "string \<Rightarrow> js_error option"

text \<open>The requests a thunk has sent, in order, with their arguments.\<close>

datatype gateway_call =
    Call_auth_signUp string string
  | Call_auth_signInWithPassword string string
  | Call_auth_signOut
  | Call_auth_getSession
  | Call_blogs_select_count
  | Call_blogs_select_range int int
  | Call_blogs_select_single string
  | Call_blogs_insert string string "string option" string
  | Call_blogs_update string string string "string option" string
  | Call_blogs_delete string
  | Call_comments_select string
  | Call_comments_insert string string string "string option"
  | Call_comments_update string string "string option" string
  | Call_comments_delete string

text \<open>
  A thunk made by \<open>createAsyncThunk\<close> dispatches \<open>pending\<close>, runs its payload creator and
  then dispatches \<open>fulfilled\<close> with the returned payload or \<open>rejected\<close> with the value given
  to \<open>rejectWithValue\<close>. A payload creator returns the requests it sent and
  \<open>Inl\<close> of the rejection value or \<open>Inr\<close> of the payload.
\<close>

datatype 'p lifecycle = pending | fulfilled 'p | rejected string

type_synonym 'p thunk_result = "gateway_call list \<times> (string + 'p)"

section \<open>The session store (authSlice.ts)\<close>

record AuthState =
  user :: "User option"
  session :: "Session option"
  isAuthenticated :: bool
  loading :: bool
  error :: "string option"

definition authInitialState :: AuthState where
  "authInitialState =
     \<lparr>AuthState.user = None, AuthState.session = None, isAuthenticated = False,
      AuthState.loading = False, AuthState.error = None\<rparr>"

record AuthPayload =
  user :: "User option"
  session :: "Session option"

definition registerUser :: "gateway \<Rightarrow> string \<Rightarrow> string \<Rightarrow> AuthPayload thunk_result" where
  "registerUser gw emailArg password =
     (let r = auth_signUp gw emailArg password
      in ([Call_auth_signUp emailArg password],
          case auth_error r of
            Some e \<Rightarrow> Inl (message e)
          | None \<Rightarrow> Inr \<lparr>AuthPayload.user = data_user r, AuthPayload.session = data_session r\<rparr>))"

definition loginUser :: "gateway \<Rightarrow> string \<Rightarrow> string \<Rightarrow> AuthPayload thunk_result" where
  "loginUser gw emailArg password =
     (let r = auth_signInWithPassword gw emailArg password
      in ([Call_auth_signInWithPassword emailArg password],
          case auth_error r of
            Some e \<Rightarrow> Inl (message e)
          | None \<Rightarrow> Inr \<lparr>AuthPayload.user = data_user r, AuthPayload.session = data_session r\<rparr>))"

definition logoutUser :: "gateway \<Rightarrow> unit thunk_result" where
  "logoutUser gw =
     ([Call_auth_signOut],
      case auth_signOut gw of Some e \<Rightarrow> Inl (message e) | None \<Rightarrow> Inr ())"

definition checkSession :: "gateway \<Rightarrow> AuthPayload thunk_result" where
  "checkSession gw =
     (let r = auth_getSession gw
      in ([Call_auth_getSession],
          case session_error r of
            Some e \<Rightarrow> Inl (message e)
          | None \<Rightarrow>
              Inr \<lparr>AuthPayload.user = map_option Session.user (session_data r),
                   AuthPayload.session = session_data r\<rparr>))"

datatype AuthAction =
    AuthClearError
  | RegisterUser "AuthPayload lifecycle"
  | LoginUser "AuthPayload lifecycle"
  | LogoutUser "unit lifecycle"
  | CheckSession "AuthPayload lifecycle"

text \<open>
  The slice reducer. An action with no case in the builder leaves the state as it is:
  \<open>checkSession.pending\<close> and \<open>checkSession.rejected\<close> have none.
\<close>

fun authReducer :: "AuthState \<Rightarrow> AuthAction \<Rightarrow> AuthState" where
  "authReducer s AuthClearError = s\<lparr>AuthState.error := None\<rparr>"
| "authReducer s (RegisterUser pending) = s\<lparr>AuthState.loading := True, AuthState.error := None\<rparr>"
| "authReducer s (RegisterUser (fulfilled p)) =
     s\<lparr>AuthState.loading := False, AuthState.user := AuthPayload.user p,
       AuthState.session := AuthPayload.session p,
       isAuthenticated := (AuthPayload.session p \<noteq> None)\<rparr>"
| "authReducer s (RegisterUser (rejected m)) =
     s\<lparr>AuthState.loading := False, AuthState.error := Some m\<rparr>"
| "authReducer s (LoginUser pending) = s\<lparr>AuthState.loading := True, AuthState.error := None\<rparr>"
| "authReducer s (LoginUser (fulfilled p)) =
     s\<lparr>AuthState.loading := False, AuthState.user := AuthPayload.user p,
       AuthState.session := AuthPayload.session p,
       isAuthenticated := (AuthPayload.session p \<noteq> None)\<rparr>"
| "authReducer s (LoginUser (rejected m)) =
     s\<lparr>AuthState.loading := False, AuthState.error := Some m\<rparr>"
| "authReducer s (LogoutUser pending) = s\<lparr>AuthState.loading := True\<rparr>"
| "authReducer s (LogoutUser (fulfilled u)) =
     s\<lparr>AuthState.loading := False, AuthState.user := None, AuthState.session := None,
       isAuthenticated := False\<rparr>"
| "authReducer s (LogoutUser (rejected m)) =
     s\<lparr>AuthState.loading := False, AuthState.error := Some m\<rparr>"
| "authReducer s (CheckSession (fulfilled p)) =
     s\<lparr>AuthState.user := AuthPayload.user p, AuthState.session := AuthPayload.session p,
       isAuthenticated := (AuthPayload.session p \<noteq> None)\<rparr>"
| "authReducer s (CheckSession pending) = s"
| "authReducer s (CheckSession (rejected m)) = s"

section \<open>The post cache (blogSlice.ts)\<close>

record Pagination =
  page :: int
  limit :: int
  total :: int

record BlogState =
  blogs :: "Blog list"
  currentBlog :: "Blog option"
  pagination :: Pagination
  loading :: bool
  error :: "string option"

definition blogInitialState :: BlogState where
  "blogInitialState =
     \<lparr>BlogState.blogs = [], currentBlog = None,
      pagination = \<lparr>page = 1, limit = 5, Pagination.total = 0\<rparr>,
      BlogState.loading = False, BlogState.error = None\<rparr>"

record FetchBlogsPayload =
  blogs :: "Blog list"
  total :: int

text \<open>
  \<open>state.auth.user?.id\<close> followed by \<open>if (!userId)\<close>: the identifier is missing when there
  is no user, and the empty string is falsy as well.
\<close>

definition userId_of :: "AuthState \<Rightarrow> string option" where
  "userId_of a =
     (case AuthState.user a of
        None \<Rightarrow> None
      | Some u \<Rightarrow> (if User.id' u = [] then None else Some (User.id' u)))"

definition fetchBlogs :: "gateway \<Rightarrow> int \<Rightarrow> int \<Rightarrow> FetchBlogsPayload thunk_result" where
  "fetchBlogs gw pageArg limitArg =
     (let from = (pageArg - 1) * limitArg;
          to = from + limitArg - 1;
          c = PostgrestResponse.count (from_blogs_select_count gw);
          r = from_blogs_select_range gw from to
      in ([Call_blogs_select_count, Call_blogs_select_range from to],
          case PostgrestResponse.error r of
            Some e \<Rightarrow> Inl (message e)
          | None \<Rightarrow>
              Inr \<lparr>FetchBlogsPayload.blogs = (case data r of None \<Rightarrow> [] | Some d \<Rightarrow> d),
                   FetchBlogsPayload.total = (case c of None \<Rightarrow> 0 | Some n \<Rightarrow> int n)\<rparr>))"

definition fetchBlogById :: "gateway \<Rightarrow> string \<Rightarrow> Blog thunk_result" where
  "fetchBlogById gw i =
     ([Call_blogs_select_single i],
      case from_blogs_select_single gw i of
        SingleFailure e \<Rightarrow> Inl (message e)
      | SingleSuccess d \<Rightarrow> Inr d)"

definition createBlog ::
  "gateway \<Rightarrow> AuthState \<Rightarrow> string \<Rightarrow> string \<Rightarrow> string option \<Rightarrow> Blog thunk_result" where
  "createBlog gw auth titleArg contentArg imageUrl =
     (case userId_of auth of
        None \<Rightarrow> ([], Inl (message (Error ''User not authenticated'')))
      | Some userId \<Rightarrow>
          ([Call_blogs_insert titleArg contentArg imageUrl userId],
           case from_blogs_insert gw titleArg contentArg imageUrl userId of
             SingleFailure e \<Rightarrow> Inl (message e)
           | SingleSuccess d \<Rightarrow> Inr d))"

text \<open>\<open>now\<close> is what \<open>new Date().toISOString()\<close> gives when the thunk runs.\<close>

definition updateBlog ::
  "gateway \<Rightarrow> string \<Rightarrow> string \<Rightarrow> string \<Rightarrow> string \<Rightarrow> string option \<Rightarrow> Blog thunk_result" where
  "updateBlog gw now i titleArg contentArg imageUrl =
     ([Call_blogs_update i titleArg contentArg imageUrl now],
      case from_blogs_update gw i titleArg contentArg imageUrl now of
        SingleFailure e \<Rightarrow> Inl (message e)
      | SingleSuccess d \<Rightarrow> Inr d)"

definition deleteBlog :: "gateway \<Rightarrow> string \<Rightarrow> string thunk_result" where
  "deleteBlog gw i =
     ([Call_blogs_delete i],
      case from_blogs_delete gw i of Some e \<Rightarrow> Inl (message e) | None \<Rightarrow> Inr i)"

text \<open>
  \<open>Array.prototype.findIndex\<close>: the first index whose element passes, or \<open>-1\<close>.
  The reducers below run on an Immer draft: each statement of a case assigns one field,
  and a guarded statement assigns it only when its guard holds, so each case is written
  as one record update whose fields are the values after the case has run.
\<close>

fun findIndex :: "('a \<Rightarrow> bool) \<Rightarrow> 'a list \<Rightarrow> int" where
  "findIndex P [] = - 1"
| "findIndex P (x # xs) =
     (if P x then 0 else (let i = findIndex P xs in if i = - 1 then - 1 else i + 1))"

datatype BlogAction =
    SetPage int
  | ClearCurrentBlog
  | BlogClearError
  | FetchBlogs "FetchBlogsPayload lifecycle"
  | FetchBlogById "Blog lifecycle"
  | CreateBlog "Blog lifecycle"
  | UpdateBlog "Blog lifecycle"
  | DeleteBlog "string lifecycle"

fun blogReducer :: "BlogState \<Rightarrow> BlogAction \<Rightarrow> BlogState" where
  "blogReducer s (SetPage n) = s\<lparr>pagination := (pagination s)\<lparr>page := n\<rparr>\<rparr>"
| "blogReducer s ClearCurrentBlog = s\<lparr>currentBlog := None\<rparr>"
| "blogReducer s BlogClearError = s\<lparr>BlogState.error := None\<rparr>"
| "blogReducer s (FetchBlogs pending) = s\<lparr>BlogState.loading := True, BlogState.error := None\<rparr>"
| "blogReducer s (FetchBlogs (fulfilled p)) =
     s\<lparr>BlogState.loading := False, BlogState.blogs := FetchBlogsPayload.blogs p,
       pagination := (pagination s)\<lparr>Pagination.total := FetchBlogsPayload.total p\<rparr>\<rparr>"
| "blogReducer s (FetchBlogs (rejected m)) =
     s\<lparr>BlogState.loading := False, BlogState.error := Some m\<rparr>"
| "blogReducer s (FetchBlogById pending) =
     s\<lparr>BlogState.loading := True, BlogState.error := None\<rparr>"
| "blogReducer s (FetchBlogById (fulfilled p)) =
     s\<lparr>BlogState.loading := False, currentBlog := Some p\<rparr>"
| "blogReducer s (FetchBlogById (rejected m)) =
     s\<lparr>BlogState.loading := False, BlogState.error := Some m\<rparr>"
| "blogReducer s (CreateBlog pending) = s\<lparr>BlogState.loading := True, BlogState.error := None\<rparr>"
| "blogReducer s (CreateBlog (fulfilled p)) =
     s\<lparr>BlogState.loading := False, BlogState.blogs := p # BlogState.blogs s,
       pagination := (pagination s)\<lparr>Pagination.total := Pagination.total (pagination s) + 1\<rparr>\<rparr>"
| "blogReducer s (CreateBlog (rejected m)) =
     s\<lparr>BlogState.loading := False, BlogState.error := Some m\<rparr>"
| "blogReducer s (UpdateBlog pending) = s\<lparr>BlogState.loading := True, BlogState.error := None\<rparr>"
| "blogReducer s (UpdateBlog (fulfilled p)) =
     (let index = findIndex (\<lambda>blog. Blog.id' blog = Blog.id' p) (BlogState.blogs s)
      in s\<lparr>BlogState.loading := False,
           BlogState.blogs :=
             (if index \<noteq> - 1 then (BlogState.blogs s)[nat index := p] else BlogState.blogs s),
           currentBlog :=
             (if map_option Blog.id' (currentBlog s) = Some (Blog.id' p) then Some p
              else currentBlog s)\<rparr>)"
| "blogReducer s (UpdateBlog (rejected m)) =
     s\<lparr>BlogState.loading := False, BlogState.error := Some m\<rparr>"
| "blogReducer s (DeleteBlog pending) = s\<lparr>BlogState.loading := True, BlogState.error := None\<rparr>"
| "blogReducer s (DeleteBlog (fulfilled i)) =
     s\<lparr>BlogState.loading := False,
       BlogState.blogs := filter (\<lambda>blog. Blog.id' blog \<noteq> i) (BlogState.blogs s),
       pagination := (pagination s)\<lparr>Pagination.total := Pagination.total (pagination s) - 1\<rparr>,
       currentBlog :=
         (if map_option Blog.id' (currentBlog s) = Some i then None else currentBlog s)\<rparr>"
| "blogReducer s (DeleteBlog (rejected m)) =
     s\<lparr>BlogState.loading := False, BlogState.error := Some m\<rparr>"

section \<open>The comment cache (commentSlice.ts)\<close>

record CommentState =
  comments :: "Comment list"
  loading :: bool
  error :: "string option"

definition commentInitialState :: CommentState where
  "commentInitialState =
     \<lparr>CommentState.comments = [], CommentState.loading = False, CommentState.error = None\<rparr>"

definition fetchComments :: "gateway \<Rightarrow> string \<Rightarrow> (Comment list) thunk_result" where
  "fetchComments gw blogId =
     (let r = from_comments_select gw blogId
      in ([Call_comments_select blogId],
          case PostgrestResponse.error r of
            Some e \<Rightarrow> Inl (message e)
          | None \<Rightarrow> Inr (case data r of None \<Rightarrow> [] | Some d \<Rightarrow> d)))"

definition createComment ::
  "gateway \<Rightarrow> AuthState \<Rightarrow> string \<Rightarrow> string \<Rightarrow> string option \<Rightarrow> Comment thunk_result" where
  "createComment gw auth blogId contentArg fileUrl =
     (case userId_of auth of
        None \<Rightarrow> ([], Inl (message (Error ''User not authenticated'')))
      | Some userId \<Rightarrow>
          ([Call_comments_insert blogId userId contentArg fileUrl],
           case from_comments_insert gw blogId userId contentArg fileUrl of
             SingleFailure e \<Rightarrow> Inl (message e)
           | SingleSuccess d \<Rightarrow> Inr d))"

definition updateComment ::
  "gateway \<Rightarrow> string \<Rightarrow> string \<Rightarrow> string \<Rightarrow> string option \<Rightarrow> Comment thunk_result" where
  "updateComment gw now i contentArg fileUrl =
     ([Call_comments_update i contentArg fileUrl now],
      case from_comments_update gw i contentArg fileUrl now of
        SingleFailure e \<Rightarrow> Inl (message e)
      | SingleSuccess d \<Rightarrow> Inr d)"

definition deleteComment :: "gateway \<Rightarrow> string \<Rightarrow> string thunk_result" where
  "deleteComment gw i =
     ([Call_comments_delete i],
      case from_comments_delete gw i of Some e \<Rightarrow> Inl (message e) | None \<Rightarrow> Inr i)"

datatype CommentAction =
    ClearComments
  | CommentClearError
  | FetchComments "(Comment list) lifecycle"
  | CreateComment "Comment lifecycle"
  | UpdateComment "Comment lifecycle"
  | DeleteComment "string lifecycle"

fun commentReducer :: "CommentState \<Rightarrow> CommentAction \<Rightarrow> CommentState" where
  "commentReducer s ClearComments = s\<lparr>CommentState.comments := []\<rparr>"
| "commentReducer s CommentClearError = s\<lparr>CommentState.error := None\<rparr>"
| "commentReducer s (FetchComments pending) =
     s\<lparr>CommentState.loading := True, CommentState.error := None\<rparr>"
| "commentReducer s (FetchComments (fulfilled p)) =
     s\<lparr>CommentState.loading := False, CommentState.comments := p\<rparr>"
| "commentReducer s (FetchComments (rejected m)) =
     s\<lparr>CommentState.loading := False, CommentState.error := Some m\<rparr>"
| "commentReducer s (CreateComment pending) =
     s\<lparr>CommentState.loading := True, CommentState.error := None\<rparr>"
| "commentReducer s (CreateComment (fulfilled p)) =
     s\<lparr>CommentState.loading := False, CommentState.comments := p # CommentState.comments s\<rparr>"
| "commentReducer s (CreateComment (rejected m)) =
     s\<lparr>CommentState.loading := False, CommentState.error := Some m\<rparr>"
| "commentReducer s (UpdateComment pending) =
     s\<lparr>CommentState.loading := True, CommentState.error := None\<rparr>"
| "commentReducer s (UpdateComment (fulfilled p)) =
     (let index =
            findIndex (\<lambda>comment. Comment.id' comment = Comment.id' p) (CommentState.comments s)
      in s\<lparr>CommentState.loading := False,
           CommentState.comments :=
             (if index \<noteq> - 1 then (CommentState.comments s)[nat index := p]
              else CommentState.comments s)\<rparr>)"
| "commentReducer s (UpdateComment (rejected m)) =
     s\<lparr>CommentState.loading := False, CommentState.error := Some m\<rparr>"
| "commentReducer s (DeleteComment pending) =
     s\<lparr>CommentState.loading := True, CommentState.error := None\<rparr>"
| "commentReducer s (DeleteComment (fulfilled i)) =
     s\<lparr>CommentState.loading := False,
       CommentState.comments :=
         filter (\<lambda>comment. Comment.id' comment \<noteq> i) (CommentState.comments s)\<rparr>"
| "commentReducer s (DeleteComment (rejected m)) =
     s\<lparr>CommentState.loading := False, CommentState.error := Some m\<rparr>"

section \<open>The store and dispatching a thunk\<close>

text \<open>
  The store holds the three slices under \<open>auth\<close>, \<open>blogs\<close> and \<open>comments\<close>. Action types
  are prefixed with the slice name, so an action reaches the reducer of its own slice
  only.
\<close>

record RootState =
  auth :: AuthState
  blogs :: BlogState
  comments :: CommentState

definition rootInitialState :: RootState where
  "rootInitialState =
     \<lparr>auth = authInitialState, RootState.blogs = blogInitialState,
      RootState.comments = commentInitialState\<rparr>"

datatype Action = Auth AuthAction | Blogs BlogAction | Comments CommentAction

fun rootReducer :: "RootState \<Rightarrow> Action \<Rightarrow> RootState" where
  "rootReducer s (Auth a) = s\<lparr>auth := authReducer (auth s) a\<rparr>"
| "rootReducer s (Blogs a) = s\<lparr>RootState.blogs := blogReducer (RootState.blogs s) a\<rparr>"
| "rootReducer s (Comments a) =
     s\<lparr>RootState.comments := commentReducer (RootState.comments s) a\<rparr>"

text \<open>
  Dispatching a thunk: \<open>pending\<close> is reduced first, the payload creator runs against the
  state it then sees through \<open>getState\<close>, and its result is reduced as \<open>fulfilled\<close> or
  \<open>rejected\<close>. The result is the requests sent and the state afterwards.
\<close>

definition settle :: "string + 'p \<Rightarrow> 'p lifecycle" where
  "settle r = (case r of Inl m \<Rightarrow> rejected m | Inr p \<Rightarrow> fulfilled p)"

definition dispatchThunk ::
  "('p lifecycle \<Rightarrow> Action) \<Rightarrow> (RootState \<Rightarrow> 'p thunk_result) \<Rightarrow> RootState
     \<Rightarrow> gateway_call list \<times> RootState" where
  "dispatchThunk mk payloadCreator s =
     (let s1 = rootReducer s (mk pending);
          res = payloadCreator s1
      in (fst res, rootReducer s1 (mk (settle (snd res)))))"

text \<open>The write operations of the two caches, as the pages dispatch them.\<close>

datatype WriteOp =
    WriteCreateBlog string string "string option"
  | WriteUpdateBlog string string string "string option"
  | WriteDeleteBlog string
  | WriteCreateComment string string "string option"
  | WriteUpdateComment string string "string option"
  | WriteDeleteComment string

fun dispatchWrite :: "gateway \<Rightarrow> string \<Rightarrow> RootState \<Rightarrow> WriteOp \<Rightarrow> gateway_call list \<times> RootState" where
  "dispatchWrite gw now s (WriteCreateBlog titleArg contentArg imageUrl) =
     dispatchThunk (\<lambda>l. Blogs (CreateBlog l))
       (\<lambda>st. createBlog gw (auth st) titleArg contentArg imageUrl) s"
| "dispatchWrite gw now s (WriteUpdateBlog i titleArg contentArg imageUrl) =
     dispatchThunk (\<lambda>l. Blogs (UpdateBlog l))
       (\<lambda>st. updateBlog gw now i titleArg contentArg imageUrl) s"
| "dispatchWrite gw now s (WriteDeleteBlog i) =
     dispatchThunk (\<lambda>l. Blogs (DeleteBlog l)) (\<lambda>st. deleteBlog gw i) s"
| "dispatchWrite gw now s (WriteCreateComment blogId contentArg fileUrl) =
     dispatchThunk (\<lambda>l. Comments (CreateComment l))
       (\<lambda>st. createComment gw (auth st) blogId contentArg fileUrl) s"
| "dispatchWrite gw now s (WriteUpdateComment i contentArg fileUrl) =
     dispatchThunk (\<lambda>l. Comments (UpdateComment l))
       (\<lambda>st. updateComment gw now i contentArg fileUrl) s"
| "dispatchWrite gw now s (WriteDeleteComment i) =
     dispatchThunk (\<lambda>l. Comments (DeleteComment l)) (\<lambda>st. deleteComment gw i) s"

text \<open>The two dispatches of the session store and of the list page that are studied below.\<close>

definition dispatchRegisterUser ::
  "gateway \<Rightarrow> RootState \<Rightarrow> string \<Rightarrow> string \<Rightarrow> gateway_call list \<times> RootState" where
  "dispatchRegisterUser gw s emailArg password =
     dispatchThunk (\<lambda>l. Auth (RegisterUser l)) (\<lambda>st. registerUser gw emailArg password) s"

definition dispatchFetchBlogs ::
  "gateway \<Rightarrow> RootState \<Rightarrow> int \<Rightarrow> int \<Rightarrow> gateway_call list \<times> RootState" where
  "dispatchFetchBlogs gw s pageArg limitArg =
     dispatchThunk (\<lambda>l. Blogs (FetchBlogs l)) (\<lambda>st. fetchBlogs gw pageArg limitArg) s"

section \<open>Observations\<close>

text \<open>
  The cached collections of the store: the post window, the focused post, the total count
  and the comment list.
\<close>

definition collections :: "RootState \<Rightarrow> Blog list \<times> Blog option \<times> int \<times> Comment list" where
  "collections s =
     (BlogState.blogs (RootState.blogs s), currentBlog (RootState.blogs s),
      Pagination.total (pagination (RootState.blogs s)),
      CommentState.comments (RootState.comments s))"

text \<open>The status of each cache: its loading flag and its last error.\<close>

definition blog_flags :: "BlogState \<Rightarrow> bool \<times> string option" where
  "blog_flags s = (BlogState.loading s, BlogState.error s)"

definition comment_flags :: "CommentState \<Rightarrow> bool \<times> string option" where
  "comment_flags s = (CommentState.loading s, CommentState.error s)"

definition auth_flags :: "AuthState \<Rightarrow> bool \<times> string option" where
  "auth_flags s = (AuthState.loading s, AuthState.error s)"

text \<open>The session store is consistent when the flag says whether a raw session is stored.\<close>

definition session_consistent :: "AuthState \<Rightarrow> bool" where
  "session_consistent a = (isAuthenticated a = (AuthState.session a \<noteq> None))"

section \<open>Sample data\<close>

definition sampleBlog :: "string \<Rightarrow> Blog" where
  "sampleBlog i =
     \<lparr>Blog.id' = i, Blog.user_id = ''u1'', title = ''A'', Blog.content = ''B'',
      image_url = None, Blog.created_at = ''t0'', Blog.updated_at = ''t0''\<rparr>"

definition sampleComment :: "string \<Rightarrow> Comment" where
  "sampleComment i =
     \<lparr>Comment.id' = i, blog_id = ''b1'', Comment.user_id = ''u1'', Comment.content = ''C'',
      file_url = None, Comment.created_at = ''t0'', Comment.updated_at = ''t0''\<rparr>"

definition sampleUser :: User where
  "sampleUser = \<lparr>User.id' = ''u1'', email = ''a@b.c''\<rparr>"

definition sampleSession :: Session where
  "sampleSession = \<lparr>access_token = ''tok'', Session.user = sampleUser\<rparr>"

text \<open>
  A gateway on which every request succeeds; sign-up answers with a user and no session,
  as it does while the e-mail address awaits confirmation.
\<close>

definition gatewayOk :: gateway where
  "gatewayOk =
     \<lparr>auth_signUp = (\<lambda>e p. AuthResponse (Some sampleUser) None None),
      auth_signInWithPassword = (\<lambda>e p. AuthResponse (Some sampleUser) (Some sampleSession) None),
      auth_signOut = None,
      auth_getSession = SessionResponse None None,
      from_blogs_select_count =
        \<lparr>data = None, count = Some 47, PostgrestResponse.error = None\<rparr>,
      from_blogs_select_range =
        (\<lambda>f t. \<lparr>data = Some [sampleBlog ''b46'', sampleBlog ''b47''], count = None,
                 PostgrestResponse.error = None\<rparr>),
      from_blogs_select_single = (\<lambda>i. SingleSuccess (sampleBlog i)),
      from_blogs_insert =
        (\<lambda>t c img u. SingleSuccess ((sampleBlog ''new'')\<lparr>Blog.user_id := u, title := t,
                                      Blog.content := c, image_url := img\<rparr>)),
      from_blogs_update =
        (\<lambda>i t c img n. SingleSuccess ((sampleBlog i)\<lparr>title := t, Blog.content := c,
                                      image_url := img, Blog.updated_at := n\<rparr>)),
      from_blogs_delete = (\<lambda>i. None),
      from_comments_select =
        (\<lambda>b. \<lparr>data = Some [sampleComment ''c1''], count = None,
               PostgrestResponse.error = None\<rparr>),
      from_comments_insert =
        (\<lambda>b u c f. SingleSuccess ((sampleComment ''new'')\<lparr>blog_id := b, Comment.user_id := u,
                                    Comment.content := c, file_url := f\<rparr>)),
      from_comments_update =
        (\<lambda>i c f n. SingleSuccess ((sampleComment i)\<lparr>Comment.content := c, file_url := f,
                                    Comment.updated_at := n\<rparr>)),
      from_comments_delete = (\<lambda>i. None)\<rparr>"

text \<open>A gateway on which every request fails with the message \<open>down\<close>.\<close>

definition gatewayDown :: gateway where
  "gatewayDown =
     \<lparr>auth_signUp = (\<lambda>e p. AuthResponse None None (Some (Error ''down''))),
      auth_signInWithPassword = (\<lambda>e p. AuthResponse None None (Some (Error ''down''))),
      auth_signOut = Some (Error ''down''),
      auth_getSession = SessionResponse None (Some (Error ''down'')),
      from_blogs_select_count =
        \<lparr>data = None, count = None, PostgrestResponse.error = Some (Error ''down'')\<rparr>,
      from_blogs_select_range =
        (\<lambda>f t. \<lparr>data = None, count = None, PostgrestResponse.error = Some (Error ''down'')\<rparr>),
      from_blogs_select_single = (\<lambda>i. SingleFailure (Error ''down'')),
      from_blogs_insert = (\<lambda>t c img u. SingleFailure (Error ''down'')),
      from_blogs_update = (\<lambda>i t c img n. SingleFailure (Error ''down'')),
      from_blogs_delete = (\<lambda>i. Some (Error ''down'')),
      from_comments_select =
        (\<lambda>b. \<lparr>data = None, count = None, PostgrestResponse.error = Some (Error ''down'')\<rparr>),
      from_comments_insert = (\<lambda>b u c f. SingleFailure (Error ''down'')),
      from_comments_update = (\<lambda>i c f n. SingleFailure (Error ''down'')),
      from_comments_delete = (\<lambda>i. Some (Error ''down''))\<rparr>"

text \<open>The gateway \<open>gatewayOk\<close> with a failing count request.\<close>

definition gatewayCountDown :: gateway where
  "gatewayCountDown =
     gatewayOk\<lparr>from_blogs_select_count :=
       \<lparr>data = None, count = None, PostgrestResponse.error = Some (Error ''down'')\<rparr>\<rparr>"

text \<open>
  A store after login and a list fetch: five posts in the window out of 47, the post
  \<open>b1\<close> in focus, two comments cached.
\<close>

definition sampleState :: RootState where
  "sampleState =
     \<lparr>auth =
        \<lparr>AuthState.user = Some sampleUser, AuthState.session = Some sampleSession,
         isAuthenticated = True, AuthState.loading = False, AuthState.error = None\<rparr>,
      RootState.blogs =
        \<lparr>BlogState.blogs =
           [sampleBlog ''b1'', sampleBlog ''b2'', sampleBlog ''b3'', sampleBlog ''b4'',
            sampleBlog ''b5''],
         currentBlog = Some (sampleBlog ''b1''),
         pagination = \<lparr>page = 1, limit = 5, Pagination.total = 47\<rparr>,
         BlogState.loading = False, BlogState.error = None\<rparr>,
      RootState.comments =
        \<lparr>CommentState.comments = [sampleComment ''c1'', sampleComment ''c2''],
         CommentState.loading = False, CommentState.error = None\<rparr>\<rparr>"

section \<open>Facts about dispatching\<close>

text \<open>
  A thunk of the post cache changes the \<open>blogs\<close> slice only: by the \<open>pending\<close> case
  first, then by the case of what the payload creator returned.
\<close>

lemma dispatchThunk_blogs:
  "snd (dispatchThunk (\<lambda>l. Blogs (mk l)) payloadCreator s) =
     s\<lparr>RootState.blogs :=
         blogReducer (blogReducer (RootState.blogs s) (mk pending))
           (mk (settle (snd (payloadCreator
              (s\<lparr>RootState.blogs := blogReducer (RootState.blogs s) (mk pending)\<rparr>)))))\<rparr>"
  by (simp add: dispatchThunk_def Let_def)

section \<open>Facts about \<open>findIndex\<close>\<close>

lemma findIndex_lower: "- 1 \<le> findIndex P xs"
  by (induction xs) (auto simp: Let_def)

lemma findIndex_absent: "(findIndex P xs = - 1) = (\<forall>x \<in> set xs. \<not> P x)"
proof (induction xs)
  case Nil
  show ?case by simp
next
  case (Cons x xs)
  have "findIndex P xs + 1 \<noteq> - 1"
    using findIndex_lower [of P xs] by arith
  with Cons show ?case by (auto simp: Let_def)
qed

text \<open>A found index is inside the list, so the indexed assignment of the reducers is too.\<close>

lemma findIndex_found:
  "findIndex P xs \<noteq> - 1 \<Longrightarrow> nat (findIndex P xs) < length xs \<and> P (xs ! nat (findIndex P xs))"
proof (induction xs)
  case Nil
  then show ?case by simp
next
  case (Cons x xs)
  show ?case
  proof (cases "P x")
    case True
    then show ?thesis by simp
  next
    case False
    with Cons.prems have ne: "findIndex P xs \<noteq> - 1"
      by (auto simp: Let_def split: if_splits)
    have ge: "0 \<le> findIndex P xs"
      using ne findIndex_lower [of P xs] by arith
    from Cons.IH [OF ne] False ne ge show ?thesis
      by (simp add: Let_def nat_add_distrib)
  qed
qed

section \<open>Clearing the comment cache\<close>

text \<open>
  Claim C9, as the specification words it: for every prior state of the comment cache,
  \<open>clearComments\<close> yields an empty comment collection with no pending loading flag.
  This fails when a request is in flight: after \<open>fetchComments.pending\<close> the flag is
  set, and \<open>clearComments\<close> does not touch it.
\<close>

theorem clearComments_loading_counterexample:
  "\<not> (CommentState.comments
         (commentReducer (commentReducer commentInitialState (FetchComments pending))
            ClearComments) = []
      \<and> \<not> CommentState.loading
             (commentReducer (commentReducer commentInitialState (FetchComments pending))
                ClearComments))"
  by (simp add: commentInitialState_def)

text \<open>
  Claim C9, amended: for every prior state of the comment cache, \<open>clearComments\<close> yields
  an empty comment collection and leaves the loading flag and the error as they were.
\<close>

theorem clearComments_empties_keeps_flags:
  "CommentState.comments (commentReducer s ClearComments) = []
   \<and> CommentState.loading (commentReducer s ClearComments) = CommentState.loading s
   \<and> CommentState.error (commentReducer s ClearComments) = CommentState.error s"
  by simp

section \<open>Creating a post\<close>

text \<open>
  Claim C6: after every successful post create (a user identity is present and the gateway
  returns the inserted row), the cached window is one longer, the created post is at
  index 0 of the window, and the total count is one higher, whatever the window held.
\<close>

theorem createBlog_success_prepends:
  assumes user: "userId_of (auth s) = Some u"
    and ok: "from_blogs_insert gw t c img u = SingleSuccess p"
    and after: "s' = snd (dispatchWrite gw now s (WriteCreateBlog t c img))"
  shows "length (BlogState.blogs (RootState.blogs s')) =
           length (BlogState.blogs (RootState.blogs s)) + 1
         \<and> BlogState.blogs (RootState.blogs s') ! 0 = p
         \<and> BlogState.blogs (RootState.blogs s') = p # BlogState.blogs (RootState.blogs s)
         \<and> Pagination.total (pagination (RootState.blogs s')) =
             Pagination.total (pagination (RootState.blogs s)) + 1"
  using user ok unfolding after
  by (simp add: dispatchThunk_def createBlog_def settle_def)

text \<open>
  The scenario of the specification: a window of 5 posts and a total of 47 become a
  window of 6 posts, the new one first, and a total of 48.
\<close>

theorem createBlog_success_prepends_witness:
  "userId_of (auth sampleState) = Some ''u1''
   \<and> length (BlogState.blogs (RootState.blogs sampleState)) = 5
   \<and> Pagination.total (pagination (RootState.blogs sampleState)) = 47
   \<and> length (BlogState.blogs (RootState.blogs
        (snd (dispatchWrite gatewayOk ''t1'' sampleState (WriteCreateBlog ''A'' ''B'' None))))) = 6
   \<and> Blog.id' (BlogState.blogs (RootState.blogs
        (snd (dispatchWrite gatewayOk ''t1'' sampleState (WriteCreateBlog ''A'' ''B'' None)))) ! 0)
       = ''new''
   \<and> Pagination.total (pagination (RootState.blogs
        (snd (dispatchWrite gatewayOk ''t1'' sampleState (WriteCreateBlog ''A'' ''B'' None))))) = 48"
proof -
  have u: "userId_of (auth sampleState) = Some ''u1''"
    by (simp add: userId_of_def sampleState_def sampleUser_def)
  have ok: "from_blogs_insert gatewayOk ''A'' ''B'' None ''u1'' = SingleSuccess (sampleBlog ''new'')"
    by (simp add: gatewayOk_def sampleBlog_def)
  have n: "length (BlogState.blogs (RootState.blogs sampleState)) = 5"
    and t: "Pagination.total (pagination (RootState.blogs sampleState)) = 47"
    by (simp_all add: sampleState_def)
  show ?thesis
    using createBlog_success_prepends [where now = "''t1''", OF u ok refl] u n t
    by (simp add: sampleBlog_def)
qed

section \<open>Deleting a post\<close>

text \<open>
  Claim C2: on every successful delete of the id \<open>i\<close>, the posts with that id are
  removed from the cached window (the others stay, in order), the total count goes down
  by exactly 1, also when \<open>i\<close> is absent from the window, which then stays as it is,
  and the focused post is cleared when its id is \<open>i\<close>.
\<close>

theorem deleteBlog_success_effect:
  assumes ok: "from_blogs_delete gw i = None"
    and after: "s' = snd (dispatchWrite gw now s (WriteDeleteBlog i))"
  shows "BlogState.blogs (RootState.blogs s') =
           filter (\<lambda>b. Blog.id' b \<noteq> i) (BlogState.blogs (RootState.blogs s))
         \<and> i \<notin> Blog.id' ` set (BlogState.blogs (RootState.blogs s'))
         \<and> Pagination.total (pagination (RootState.blogs s')) =
             Pagination.total (pagination (RootState.blogs s)) - 1
         \<and> (i \<notin> Blog.id' ` set (BlogState.blogs (RootState.blogs s)) \<longrightarrow>
              BlogState.blogs (RootState.blogs s') = BlogState.blogs (RootState.blogs s))
         \<and> currentBlog (RootState.blogs s') =
             (if map_option Blog.id' (currentBlog (RootState.blogs s)) = Some i then None
              else currentBlog (RootState.blogs s))"
proof -
  have res: "snd (deleteBlog gw i) = Inr i"
    using ok by (simp add: deleteBlog_def)
  have eq: "RootState.blogs s' =
      blogReducer (blogReducer (RootState.blogs s) (DeleteBlog pending)) (DeleteBlog (fulfilled i))"
    unfolding after dispatchWrite.simps dispatchThunk_blogs res settle_def by simp
  have absent: "i \<notin> Blog.id' ` set xs \<Longrightarrow> filter (\<lambda>b. Blog.id' b \<noteq> i) xs = xs"
    for xs :: "Blog list"
    by (induction xs) auto
  show ?thesis
    unfolding eq using absent by (auto simp: Let_def)
qed

text \<open>
  Deleting \<open>b1\<close>, which is in the window and in focus, and deleting \<open>b9\<close>, which is
  not in the window: the total goes from 47 to 46 both times.
\<close>

theorem deleteBlog_success_effect_witness:
  "from_blogs_delete gatewayOk ''b1'' = None
   \<and> map Blog.id' (BlogState.blogs (RootState.blogs
        (snd (dispatchWrite gatewayOk ''t1'' sampleState (WriteDeleteBlog ''b1'')))))
       = [''b2'', ''b3'', ''b4'', ''b5'']
   \<and> Pagination.total (pagination (RootState.blogs
        (snd (dispatchWrite gatewayOk ''t1'' sampleState (WriteDeleteBlog ''b1''))))) = 46
   \<and> currentBlog (RootState.blogs
        (snd (dispatchWrite gatewayOk ''t1'' sampleState (WriteDeleteBlog ''b1'')))) = None
   \<and> ''b9'' \<notin> Blog.id' ` set (BlogState.blogs (RootState.blogs sampleState))
   \<and> BlogState.blogs (RootState.blogs
        (snd (dispatchWrite gatewayOk ''t1'' sampleState (WriteDeleteBlog ''b9''))))
       = BlogState.blogs (RootState.blogs sampleState)
   \<and> Pagination.total (pagination (RootState.blogs
        (snd (dispatchWrite gatewayOk ''t1'' sampleState (WriteDeleteBlog ''b9''))))) = 46"
proof -
  have ok: "from_blogs_delete gatewayOk j = None" for j
    by (simp add: gatewayOk_def)
  have absent: "''b9'' \<notin> Blog.id' ` set (BlogState.blogs (RootState.blogs sampleState))"
    by (simp add: sampleState_def sampleBlog_def)
  show ?thesis
    using deleteBlog_success_effect
            [where gw = gatewayOk and i = "''b1''" and now = "''t1''" and s = sampleState,
             OF ok refl]
      deleteBlog_success_effect
            [where gw = gatewayOk and i = "''b9''" and now = "''t1''" and s = sampleState,
             OF ok refl]
      ok absent
    by (simp add: sampleState_def sampleBlog_def)
qed

section \<open>Updating a post\<close>

text \<open>
  Claim C8: a successful update whose returned post has an id that is not in the current
  window leaves the window as it is (same length, same order, same items), and still
  replaces the focused post when its id is the updated id.
\<close>

theorem updateBlog_absent_keeps_window:
  assumes ok: "from_blogs_update gw i t c img now = SingleSuccess p"
    and absent: "Blog.id' p \<notin> Blog.id' ` set (BlogState.blogs (RootState.blogs s))"
    and after: "s' = snd (dispatchWrite gw now s (WriteUpdateBlog i t c img))"
  shows "BlogState.blogs (RootState.blogs s') = BlogState.blogs (RootState.blogs s)
         \<and> currentBlog (RootState.blogs s') =
             (if map_option Blog.id' (currentBlog (RootState.blogs s)) = Some (Blog.id' p)
              then Some p else currentBlog (RootState.blogs s))"
proof -
  have res: "snd (updateBlog gw now i t c img) = Inr p"
    using ok by (simp add: updateBlog_def)
  have eq: "RootState.blogs s' =
      blogReducer (blogReducer (RootState.blogs s) (UpdateBlog pending)) (UpdateBlog (fulfilled p))"
    unfolding after dispatchWrite.simps dispatchThunk_blogs res settle_def by simp
  have none: "findIndex (\<lambda>blog. Blog.id' blog = Blog.id' p) (BlogState.blogs (RootState.blogs s)) = - 1"
    unfolding findIndex_absent using absent by (metis imageI)
  show ?thesis
    unfolding eq using none by (auto simp: Let_def)
qed

text \<open>
  The post \<open>b9\<close> is in focus and not in the window: the update leaves the window and
  replaces the focused post.
\<close>

theorem updateBlog_absent_keeps_window_witness:
  "from_blogs_update gatewayOk ''b9'' ''T'' ''C'' None ''t1''
     = SingleSuccess ((sampleBlog ''b9'')\<lparr>title := ''T'', Blog.content := ''C'',
                        Blog.updated_at := ''t1''\<rparr>)
   \<and> ''b9'' \<notin> Blog.id' ` set (BlogState.blogs (RootState.blogs sampleState))
   \<and> BlogState.blogs (RootState.blogs
        (snd (dispatchWrite gatewayOk ''t1''
               (sampleState\<lparr>RootState.blogs :=
                  (RootState.blogs sampleState)\<lparr>currentBlog := Some (sampleBlog ''b9'')\<rparr>\<rparr>)
               (WriteUpdateBlog ''b9'' ''T'' ''C'' None))))
       = BlogState.blogs (RootState.blogs sampleState)
   \<and> map_option title (currentBlog (RootState.blogs
        (snd (dispatchWrite gatewayOk ''t1''
               (sampleState\<lparr>RootState.blogs :=
                  (RootState.blogs sampleState)\<lparr>currentBlog := Some (sampleBlog ''b9'')\<rparr>\<rparr>)
               (WriteUpdateBlog ''b9'' ''T'' ''C'' None)))))
       = Some ''T''"
proof -
  let ?p = "(sampleBlog ''b9'')\<lparr>title := ''T'', Blog.content := ''C'', Blog.updated_at := ''t1''\<rparr>"
  let ?s = "sampleState\<lparr>RootState.blogs :=
              (RootState.blogs sampleState)\<lparr>currentBlog := Some (sampleBlog ''b9'')\<rparr>\<rparr>"
  have ok: "from_blogs_update gatewayOk ''b9'' ''T'' ''C'' None ''t1'' = SingleSuccess ?p"
    by (simp add: gatewayOk_def sampleBlog_def)
  have absent0: "''b9'' \<notin> Blog.id' ` set (BlogState.blogs (RootState.blogs sampleState))"
    by (simp add: sampleState_def sampleBlog_def)
  have absent: "Blog.id' ?p \<notin> Blog.id' ` set (BlogState.blogs (RootState.blogs ?s))"
    by (simp add: sampleState_def sampleBlog_def)
  show ?thesis
    using updateBlog_absent_keeps_window [OF ok absent refl] ok absent0
    by (simp add: sampleBlog_def)
qed

section \<open>The total count\<close>

text \<open>
  Claim C4, as the specification words it: in every reachable state of the post cache the
  total count is at least 0, and no operation, a successful delete included, drives it
  below zero. \<open>deleteBlog.fulfilled\<close> subtracts 1 whatever the count is: on a fresh
  store, where no list has been fetched and the count is 0, a successful delete leaves
  a count of \<open>-1\<close>.
\<close>

theorem total_nonnegative_counterexample:
  "Pagination.total (pagination (RootState.blogs rootInitialState)) = 0
   \<and> fst (dispatchWrite gatewayOk ''t1'' rootInitialState (WriteDeleteBlog ''b1''))
       = [Call_blogs_delete ''b1'']
   \<and> Pagination.total (pagination (RootState.blogs
        (snd (dispatchWrite gatewayOk ''t1'' rootInitialState (WriteDeleteBlog ''b1''))))) = - 1
   \<and> \<not> 0 \<le> Pagination.total (pagination (RootState.blogs
        (snd (dispatchWrite gatewayOk ''t1'' rootInitialState (WriteDeleteBlog ''b1'')))))"
  by (simp add: dispatchThunk_def deleteBlog_def settle_def gatewayOk_def rootInitialState_def
      blogInitialState_def)

lemma blogReducer_keeps_total_nonnegative:
  assumes "\<forall>i. a \<noteq> DeleteBlog (fulfilled i)"
    and "\<forall>pl. a = FetchBlogs (fulfilled pl) \<longrightarrow> 0 \<le> FetchBlogsPayload.total pl"
    and "0 \<le> Pagination.total (pagination s)"
  shows "0 \<le> Pagination.total (pagination (blogReducer s a))"
  using assms by (induction s a rule: blogReducer.induct) (simp_all add: Let_def)

lemma fetchBlogs_total_nonnegative:
  "snd (fetchBlogs gw p l) = Inr pl \<Longrightarrow> 0 \<le> FetchBlogsPayload.total pl"
  by (auto simp: fetchBlogs_def Let_def split: option.splits)

text \<open>
  Claim C4, amended: the total count is 0 in the initial state and at least 0 right after
  every successful list fetch, which stores the count the gateway gave (or 0); every
  action of the post cache other than a successful delete keeps a total that is at least
  0 at least 0; a successful delete lowers the total by exactly 1 whatever its value, so
  the total stays at least 0 exactly when it was at least 1 before.
\<close>

theorem total_nonnegative_except_delete:
  "Pagination.total (pagination blogInitialState) = 0
   \<and> (snd (fetchBlogs gw p l) = Inr pl \<longrightarrow>
        0 \<le> FetchBlogsPayload.total pl
        \<and> Pagination.total (pagination (blogReducer s (FetchBlogs (fulfilled pl))))
            = FetchBlogsPayload.total pl)
   \<and> ((\<forall>i. a \<noteq> DeleteBlog (fulfilled i))
       \<and> (\<forall>pl'. a = FetchBlogs (fulfilled pl') \<longrightarrow> 0 \<le> FetchBlogsPayload.total pl')
       \<and> 0 \<le> Pagination.total (pagination s) \<longrightarrow>
        0 \<le> Pagination.total (pagination (blogReducer s a)))
   \<and> Pagination.total (pagination (blogReducer s (DeleteBlog (fulfilled i))))
       = Pagination.total (pagination s) - 1
   \<and> (0 \<le> Pagination.total (pagination (blogReducer s (DeleteBlog (fulfilled i))))) =
       (1 \<le> Pagination.total (pagination s))"
proof -
  have init: "Pagination.total (pagination blogInitialState) = 0"
    by (simp add: blogInitialState_def)
  have fetch: "snd (fetchBlogs gw p l) = Inr pl \<longrightarrow>
        0 \<le> FetchBlogsPayload.total pl
        \<and> Pagination.total (pagination (blogReducer s (FetchBlogs (fulfilled pl))))
            = FetchBlogsPayload.total pl"
    using fetchBlogs_total_nonnegative [of gw p l pl] by simp
  have keep: "(\<forall>i. a \<noteq> DeleteBlog (fulfilled i))
       \<and> (\<forall>pl'. a = FetchBlogs (fulfilled pl') \<longrightarrow> 0 \<le> FetchBlogsPayload.total pl')
       \<and> 0 \<le> Pagination.total (pagination s) \<longrightarrow>
        0 \<le> Pagination.total (pagination (blogReducer s a))"
    using blogReducer_keeps_total_nonnegative [of a s] by blast
  have del: "Pagination.total (pagination (blogReducer s (DeleteBlog (fulfilled i))))
       = Pagination.total (pagination s) - 1"
    by simp
  have iff: "(0 \<le> Pagination.total (pagination (blogReducer s (DeleteBlog (fulfilled i))))) =
       (1 \<le> Pagination.total (pagination s))"
    unfolding del by arith
  from init fetch keep del iff show ?thesis by blast
qed

text \<open>
  A list fetch that stores 47, a create on a store with total 47, and a delete from 47
  and from the initial 0.
\<close>

theorem total_nonnegative_except_delete_witness:
  "snd (fetchBlogs gatewayOk 10 5) =
     Inr \<lparr>FetchBlogsPayload.blogs = [sampleBlog ''b46'', sampleBlog ''b47''],
          FetchBlogsPayload.total = 47\<rparr>
   \<and> Pagination.total (pagination
        (blogReducer blogInitialState
           (FetchBlogs (fulfilled \<lparr>FetchBlogsPayload.blogs = [sampleBlog ''b46'', sampleBlog ''b47''],
                                  FetchBlogsPayload.total = 47\<rparr>)))) = 47
   \<and> (\<forall>i. CreateBlog (fulfilled (sampleBlog ''new'')) \<noteq> DeleteBlog (fulfilled i))
   \<and> 0 \<le> Pagination.total (pagination (RootState.blogs sampleState))
   \<and> 0 \<le> Pagination.total (pagination
        (blogReducer (RootState.blogs sampleState) (CreateBlog (fulfilled (sampleBlog ''new'')))))
   \<and> Pagination.total (pagination
        (blogReducer (RootState.blogs sampleState) (DeleteBlog (fulfilled ''b1'')))) = 46
   \<and> Pagination.total (pagination
        (blogReducer blogInitialState (DeleteBlog (fulfilled ''b1'')))) = - 1"
proof -
  let ?pl = "\<lparr>FetchBlogsPayload.blogs = [sampleBlog ''b46'', sampleBlog ''b47''],
             FetchBlogsPayload.total = 47\<rparr>"
  have f: "snd (fetchBlogs gatewayOk 10 5) = Inr ?pl"
    by (simp add: fetchBlogs_def gatewayOk_def Let_def)
  have a: "\<forall>i. CreateBlog (fulfilled (sampleBlog ''new'')) \<noteq> DeleteBlog (fulfilled i)"
    "\<forall>pl'. CreateBlog (fulfilled (sampleBlog ''new'')) = FetchBlogs (fulfilled pl') \<longrightarrow>
       0 \<le> FetchBlogsPayload.total pl'"
    by simp_all
  have t: "Pagination.total (pagination (RootState.blogs sampleState)) = 47"
    "Pagination.total (pagination blogInitialState) = 0"
    by (simp_all add: sampleState_def blogInitialState_def)
  show ?thesis
    using total_nonnegative_except_delete
            [where gw = gatewayOk and p = 10 and l = 5 and pl = ?pl and s = blogInitialState
               and a = "CreateBlog (fulfilled (sampleBlog ''new''))" and i = "''b1''"]
      total_nonnegative_except_delete
            [where gw = gatewayOk and p = 10 and l = 5 and pl = ?pl
               and s = "RootState.blogs sampleState"
               and a = "CreateBlog (fulfilled (sampleBlog ''new''))" and i = "''b1''"]
      f a t
    by simp
qed

section \<open>Writes without a user identity\<close>

text \<open>
  Claim C1, as the specification words it: every create, update and delete on posts or
  comments that is invoked while the session store holds no identity never calls the
  gateway and ends with an authorization error. Only the two create thunks read the
  session store. On a fresh store, with no user, an update of a post and a delete of a
  comment both reach the gateway and are fulfilled.
\<close>

theorem update_without_identity_counterexample:
  "AuthState.user (auth rootInitialState) = None
   \<and> \<not> isAuthenticated (auth rootInitialState)
   \<and> fst (dispatchWrite gatewayOk ''t1'' rootInitialState (WriteUpdateBlog ''b1'' ''T'' ''C'' None))
       = [Call_blogs_update ''b1'' ''T'' ''C'' None ''t1'']
   \<and> BlogState.error (RootState.blogs
        (snd (dispatchWrite gatewayOk ''t1'' rootInitialState
               (WriteUpdateBlog ''b1'' ''T'' ''C'' None)))) = None
   \<and> fst (dispatchWrite gatewayOk ''t1'' rootInitialState (WriteDeleteComment ''c1''))
       = [Call_comments_delete ''c1'']
   \<and> CommentState.error (RootState.comments
        (snd (dispatchWrite gatewayOk ''t1'' rootInitialState (WriteDeleteComment ''c1'')))) = None"
  by (simp add: dispatchThunk_def updateBlog_def deleteComment_def settle_def gatewayOk_def
      rootInitialState_def authInitialState_def blogInitialState_def commentInitialState_def
      Let_def)

text \<open>
  Claim C1, amended: a create on posts or comments that is invoked while the session
  store holds no user identity (no user, or a user whose id is empty) sends no request
  and is rejected with the message \<open>User not authenticated\<close>, which becomes the error
  of its cache while everything else stays as it was. Update and delete on posts and
  comments do not read the session store and send their one request whatever it holds.
\<close>

theorem create_without_identity_rejected:
  assumes nobody: "userId_of (auth s) = None"
  shows "dispatchWrite gw now s (WriteCreateBlog t c img) =
           ([], s\<lparr>RootState.blogs :=
                   (RootState.blogs s)\<lparr>BlogState.loading := False,
                      BlogState.error := Some ''User not authenticated''\<rparr>\<rparr>)
         \<and> dispatchWrite gw now s (WriteCreateComment b c fileUrl) =
           ([], s\<lparr>RootState.comments :=
                   (RootState.comments s)\<lparr>CommentState.loading := False,
                      CommentState.error := Some ''User not authenticated''\<rparr>\<rparr>)
         \<and> fst (dispatchWrite gw now s (WriteUpdateBlog i t c img))
             = [Call_blogs_update i t c img now]
         \<and> fst (dispatchWrite gw now s (WriteDeleteBlog i)) = [Call_blogs_delete i]
         \<and> fst (dispatchWrite gw now s (WriteUpdateComment i c fileUrl))
             = [Call_comments_update i c fileUrl now]
         \<and> fst (dispatchWrite gw now s (WriteDeleteComment i)) = [Call_comments_delete i]"
  using nobody
  by (simp add: dispatchThunk_def createBlog_def createComment_def updateBlog_def deleteBlog_def
      updateComment_def deleteComment_def settle_def)

text \<open>On a fresh store both creates are turned away before any request.\<close>

theorem create_without_identity_rejected_witness:
  "userId_of (auth rootInitialState) = None
   \<and> fst (dispatchWrite gatewayOk ''t1'' rootInitialState (WriteCreateBlog ''A'' ''B'' None)) = []
   \<and> BlogState.error (RootState.blogs
        (snd (dispatchWrite gatewayOk ''t1'' rootInitialState (WriteCreateBlog ''A'' ''B'' None))))
       = Some ''User not authenticated''
   \<and> fst (dispatchWrite gatewayOk ''t1'' rootInitialState (WriteCreateComment ''b1'' ''B'' None))
       = []
   \<and> CommentState.error (RootState.comments
        (snd (dispatchWrite gatewayOk ''t1'' rootInitialState
               (WriteCreateComment ''b1'' ''B'' None))))
       = Some ''User not authenticated''"
proof -
  have nobody: "userId_of (auth rootInitialState) = None"
    by (simp add: userId_of_def rootInitialState_def authInitialState_def)
  show ?thesis
    using create_without_identity_rejected
            [where gw = gatewayOk and now = "''t1''" and t = "''A''" and c = "''B''"
               and img = None and b = "''b1''" and fileUrl = None, OF nobody]
      nobody
    by simp
qed

section \<open>Gateway failures on writes\<close>

text \<open>
  Claim C5: for every write on posts or comments, when the gateway answers the request of
  the write with a failure, the message of that failure becomes, unchanged, the error of
  the cache that owns the write, and the cached collections (post window, focused post,
  total count, comment list) are as they were. A create sends its request only when a
  user identity is present.
\<close>

theorem write_gateway_failure_keeps_collections:
  "(userId_of (auth s) = Some u \<and> from_blogs_insert gw t c img u = SingleFailure e \<longrightarrow>
      collections (snd (dispatchWrite gw now s (WriteCreateBlog t c img))) = collections s
      \<and> BlogState.error (RootState.blogs (snd (dispatchWrite gw now s (WriteCreateBlog t c img))))
          = Some (message e))
   \<and> (from_blogs_update gw i t c img now = SingleFailure e \<longrightarrow>
      collections (snd (dispatchWrite gw now s (WriteUpdateBlog i t c img))) = collections s
      \<and> BlogState.error (RootState.blogs (snd (dispatchWrite gw now s (WriteUpdateBlog i t c img))))
          = Some (message e))
   \<and> (from_blogs_delete gw i = Some e \<longrightarrow>
      collections (snd (dispatchWrite gw now s (WriteDeleteBlog i))) = collections s
      \<and> BlogState.error (RootState.blogs (snd (dispatchWrite gw now s (WriteDeleteBlog i))))
          = Some (message e))
   \<and> (userId_of (auth s) = Some u \<and> from_comments_insert gw b u c fileUrl = SingleFailure e \<longrightarrow>
      collections (snd (dispatchWrite gw now s (WriteCreateComment b c fileUrl))) = collections s
      \<and> CommentState.error
            (RootState.comments (snd (dispatchWrite gw now s (WriteCreateComment b c fileUrl))))
          = Some (message e))
   \<and> (from_comments_update gw i c fileUrl now = SingleFailure e \<longrightarrow>
      collections (snd (dispatchWrite gw now s (WriteUpdateComment i c fileUrl))) = collections s
      \<and> CommentState.error
            (RootState.comments (snd (dispatchWrite gw now s (WriteUpdateComment i c fileUrl))))
          = Some (message e))
   \<and> (from_comments_delete gw i = Some e \<longrightarrow>
      collections (snd (dispatchWrite gw now s (WriteDeleteComment i))) = collections s
      \<and> CommentState.error
            (RootState.comments (snd (dispatchWrite gw now s (WriteDeleteComment i))))
          = Some (message e))"
  by (simp add: dispatchThunk_def createBlog_def updateBlog_def deleteBlog_def createComment_def
      updateComment_def deleteComment_def settle_def collections_def)

text \<open>Writes against a gateway that is down, from a store with cached posts and comments.\<close>

theorem write_gateway_failure_keeps_collections_witness:
  "userId_of (auth sampleState) = Some ''u1''
   \<and> from_blogs_insert gatewayDown ''A'' ''B'' None ''u1'' = SingleFailure (Error ''down'')
   \<and> from_blogs_update gatewayDown ''b1'' ''A'' ''B'' None ''t1'' = SingleFailure (Error ''down'')
   \<and> from_blogs_delete gatewayDown ''b1'' = Some (Error ''down'')
   \<and> from_comments_insert gatewayDown ''b1'' ''u1'' ''B'' None = SingleFailure (Error ''down'')
   \<and> from_comments_update gatewayDown ''b1'' ''B'' None ''t1'' = SingleFailure (Error ''down'')
   \<and> from_comments_delete gatewayDown ''b1'' = Some (Error ''down'')
   \<and> collections (snd (dispatchWrite gatewayDown ''t1'' sampleState (WriteCreateBlog ''A'' ''B'' None)))
       = collections sampleState
   \<and> BlogState.error (RootState.blogs
        (snd (dispatchWrite gatewayDown ''t1'' sampleState (WriteCreateBlog ''A'' ''B'' None))))
       = Some ''down''
   \<and> collections (snd (dispatchWrite gatewayDown ''t1'' sampleState (WriteDeleteBlog ''b1'')))
       = collections sampleState
   \<and> BlogState.error (RootState.blogs
        (snd (dispatchWrite gatewayDown ''t1'' sampleState (WriteDeleteBlog ''b1''))))
       = Some ''down''
   \<and> collections (snd (dispatchWrite gatewayDown ''t1'' sampleState
                          (WriteUpdateComment ''b1'' ''B'' None)))
       = collections sampleState
   \<and> CommentState.error (RootState.comments
        (snd (dispatchWrite gatewayDown ''t1'' sampleState (WriteUpdateComment ''b1'' ''B'' None))))
       = Some ''down''"
proof -
  have u: "userId_of (auth sampleState) = Some ''u1''"
    by (simp add: userId_of_def sampleState_def sampleUser_def)
  have down:
    "from_blogs_insert gatewayDown ''A'' ''B'' None ''u1'' = SingleFailure (Error ''down'')"
    "from_blogs_update gatewayDown ''b1'' ''A'' ''B'' None ''t1'' = SingleFailure (Error ''down'')"
    "from_blogs_delete gatewayDown ''b1'' = Some (Error ''down'')"
    "from_comments_insert gatewayDown ''b1'' ''u1'' ''B'' None = SingleFailure (Error ''down'')"
    "from_comments_update gatewayDown ''b1'' ''B'' None ''t1'' = SingleFailure (Error ''down'')"
    "from_comments_delete gatewayDown ''b1'' = Some (Error ''down'')"
    by (simp_all add: gatewayDown_def)
  show ?thesis
    using write_gateway_failure_keeps_collections
            [where s = sampleState and gw = gatewayDown and u = "''u1''" and t = "''A''"
               and c = "''B''" and img = None and e = "Error ''down''" and now = "''t1''"
               and i = "''b1''" and b = "''b1''" and fileUrl = None]
      u down
    by simp
qed

section \<open>Listing posts\<close>

text \<open>
  Claim C7: listing a page sends the count request and then the list request. When the
  count request fails (the answer carries an error and no count) and the list request
  succeeds, the call succeeds with the fetched window and a total of zero. The call
  fails exactly when the list request fails; the rejection carries the message of that
  failure, and the store then differs from the one before only in the loading flag and
  the error of the post cache.
\<close>

theorem fetchBlogs_only_list_failure_fatal:
  "fst (fetchBlogs gw p l) =
     [Call_blogs_select_count, Call_blogs_select_range ((p - 1) * l) ((p - 1) * l + l - 1)]
   \<and> (PostgrestResponse.error (from_blogs_select_count gw) = Some ec
       \<and> PostgrestResponse.count (from_blogs_select_count gw) = None
       \<and> PostgrestResponse.error (from_blogs_select_range gw ((p - 1) * l) ((p - 1) * l + l - 1))
           = None \<longrightarrow>
         snd (fetchBlogs gw p l) =
           Inr \<lparr>FetchBlogsPayload.blogs =
                  (case data (from_blogs_select_range gw ((p - 1) * l) ((p - 1) * l + l - 1)) of
                     None \<Rightarrow> [] | Some d \<Rightarrow> d),
                FetchBlogsPayload.total = 0\<rparr>
         \<and> BlogState.blogs (RootState.blogs (snd (dispatchFetchBlogs gw s p l))) =
             (case data (from_blogs_select_range gw ((p - 1) * l) ((p - 1) * l + l - 1)) of
                None \<Rightarrow> [] | Some d \<Rightarrow> d)
         \<and> Pagination.total (pagination (RootState.blogs (snd (dispatchFetchBlogs gw s p l)))) = 0
         \<and> BlogState.error (RootState.blogs (snd (dispatchFetchBlogs gw s p l))) = None
         \<and> \<not> BlogState.loading (RootState.blogs (snd (dispatchFetchBlogs gw s p l))))
   \<and> ((\<exists>m. snd (fetchBlogs gw p l) = Inl m) =
       (PostgrestResponse.error (from_blogs_select_range gw ((p - 1) * l) ((p - 1) * l + l - 1))
          \<noteq> None))
   \<and> (PostgrestResponse.error (from_blogs_select_range gw ((p - 1) * l) ((p - 1) * l + l - 1))
         = Some e \<longrightarrow>
         snd (fetchBlogs gw p l) = Inl (message e)
         \<and> snd (dispatchFetchBlogs gw s p l) =
           s\<lparr>RootState.blogs :=
               (RootState.blogs s)\<lparr>BlogState.loading := False,
                  BlogState.error := Some (message e)\<rparr>\<rparr>)"
  by (auto simp: fetchBlogs_def dispatchFetchBlogs_def dispatchThunk_def settle_def Let_def
      split: option.splits)


text \<open>
  Page 10 of size 5 asks for the rows 45 to 49: once with only the count request
  failing, once with the whole gateway down.
\<close>

theorem fetchBlogs_only_list_failure_fatal_witness:
  "PostgrestResponse.error (from_blogs_select_count gatewayCountDown) = Some (Error ''down'')
   \<and> PostgrestResponse.count (from_blogs_select_count gatewayCountDown) = None
   \<and> PostgrestResponse.error (from_blogs_select_range gatewayCountDown 45 49) = None
   \<and> fst (fetchBlogs gatewayCountDown 10 5)
       = [Call_blogs_select_count, Call_blogs_select_range 45 49]
   \<and> map Blog.id' (BlogState.blogs (RootState.blogs
        (snd (dispatchFetchBlogs gatewayCountDown sampleState 10 5)))) = [''b46'', ''b47'']
   \<and> Pagination.total (pagination (RootState.blogs
        (snd (dispatchFetchBlogs gatewayCountDown sampleState 10 5)))) = 0
   \<and> BlogState.error (RootState.blogs
        (snd (dispatchFetchBlogs gatewayCountDown sampleState 10 5))) = None
   \<and> PostgrestResponse.error (from_blogs_select_range gatewayDown 45 49) = Some (Error ''down'')
   \<and> snd (fetchBlogs gatewayDown 10 5) = Inl ''down''
   \<and> collections (snd (dispatchFetchBlogs gatewayDown sampleState 10 5))
       = collections sampleState
   \<and> BlogState.error (RootState.blogs (snd (dispatchFetchBlogs gatewayDown sampleState 10 5)))
       = Some ''down''"
proof -
  have c: "PostgrestResponse.error (from_blogs_select_count gatewayCountDown)
             = Some (Error ''down'')"
    "PostgrestResponse.count (from_blogs_select_count gatewayCountDown) = None"
    "PostgrestResponse.error (from_blogs_select_range gatewayCountDown 45 49) = None"
    "data (from_blogs_select_range gatewayCountDown 45 49)
       = Some [sampleBlog ''b46'', sampleBlog ''b47'']"
    by (simp_all add: gatewayCountDown_def gatewayOk_def)
  have d: "PostgrestResponse.error (from_blogs_select_range gatewayDown 45 49)
             = Some (Error ''down'')"
    by (simp add: gatewayDown_def)
  show ?thesis
    using fetchBlogs_only_list_failure_fatal
            [where gw = gatewayCountDown and p = 10 and l = 5 and s = sampleState
               and ec = "Error ''down''"]
      fetchBlogs_only_list_failure_fatal
            [where gw = gatewayDown and p = 10 and l = 5 and s = sampleState
               and e = "Error ''down''"]
      c d
    by (simp add: sampleBlog_def collections_def)
qed

section \<open>Loading and error flags\<close>

text \<open>
  Claim C3, as the specification words it: in every cache, starting any operation clears
  the prior error and sets the loading flag, and every completion clears the loading
  flag, a failure also storing its message. In the session store this fails for the
  session check, which has a reducer case for \<open>fulfilled\<close> only: after a rejected login
  its start neither sets the flag nor clears the error, its failure stores no message,
  and its success leaves a set flag set. Starting a logout keeps the prior error too.
\<close>

theorem session_flags_counterexample:
  "AuthState.error (authReducer authInitialState (LoginUser (rejected ''bad''))) = Some ''bad''
   \<and> \<not> AuthState.loading
        (authReducer (authReducer authInitialState (LoginUser (rejected ''bad'')))
           (CheckSession pending))
   \<and> AuthState.error
        (authReducer (authReducer authInitialState (LoginUser (rejected ''bad'')))
           (CheckSession pending)) = Some ''bad''
   \<and> AuthState.error
        (authReducer (authReducer authInitialState (LoginUser (rejected ''bad'')))
           (CheckSession (rejected ''boom''))) = Some ''bad''
   \<and> AuthState.loading
        (authReducer (authReducer authInitialState (LoginUser pending))
           (CheckSession (fulfilled \<lparr>AuthPayload.user = None, AuthPayload.session = None\<rparr>)))
   \<and> AuthState.error
        (authReducer (authReducer authInitialState (LoginUser (rejected ''bad'')))
           (LogoutUser pending)) = Some ''bad''"
  by (simp add: authInitialState_def)

text \<open>
  Claim C3, amended: for every operation of the post cache and of the comment cache, and
  for register and login in the session store, starting the operation clears the prior
  error and sets the loading flag, success clears the flag and keeps the error, failure
  clears the flag and stores the message. Starting a logout sets the flag, and its
  completion behaves like the others. The session check leaves the store as it is when
  it starts and when it fails, and leaves flag and error as they are when it succeeds.
\<close>

theorem flags_follow_lifecycle:
  "blog_flags (blogReducer bs (FetchBlogs pending)) = (True, None)
   \<and> blog_flags (blogReducer bs (FetchBlogs (fulfilled p1))) = (False, BlogState.error bs)
   \<and> blog_flags (blogReducer bs (FetchBlogs (rejected m))) = (False, Some m)
   \<and> blog_flags (blogReducer bs (FetchBlogById pending)) = (True, None)
   \<and> blog_flags (blogReducer bs (FetchBlogById (fulfilled p2))) = (False, BlogState.error bs)
   \<and> blog_flags (blogReducer bs (FetchBlogById (rejected m))) = (False, Some m)
   \<and> blog_flags (blogReducer bs (CreateBlog pending)) = (True, None)
   \<and> blog_flags (blogReducer bs (CreateBlog (fulfilled p2))) = (False, BlogState.error bs)
   \<and> blog_flags (blogReducer bs (CreateBlog (rejected m))) = (False, Some m)
   \<and> blog_flags (blogReducer bs (UpdateBlog pending)) = (True, None)
   \<and> blog_flags (blogReducer bs (UpdateBlog (fulfilled p2))) = (False, BlogState.error bs)
   \<and> blog_flags (blogReducer bs (UpdateBlog (rejected m))) = (False, Some m)
   \<and> blog_flags (blogReducer bs (DeleteBlog pending)) = (True, None)
   \<and> blog_flags (blogReducer bs (DeleteBlog (fulfilled i))) = (False, BlogState.error bs)
   \<and> blog_flags (blogReducer bs (DeleteBlog (rejected m))) = (False, Some m)
   \<and> comment_flags (commentReducer cs (FetchComments pending)) = (True, None)
   \<and> comment_flags (commentReducer cs (FetchComments (fulfilled p3))) = (False, CommentState.error cs)
   \<and> comment_flags (commentReducer cs (FetchComments (rejected m))) = (False, Some m)
   \<and> comment_flags (commentReducer cs (CreateComment pending)) = (True, None)
   \<and> comment_flags (commentReducer cs (CreateComment (fulfilled p4))) = (False, CommentState.error cs)
   \<and> comment_flags (commentReducer cs (CreateComment (rejected m))) = (False, Some m)
   \<and> comment_flags (commentReducer cs (UpdateComment pending)) = (True, None)
   \<and> comment_flags (commentReducer cs (UpdateComment (fulfilled p4))) = (False, CommentState.error cs)
   \<and> comment_flags (commentReducer cs (UpdateComment (rejected m))) = (False, Some m)
   \<and> comment_flags (commentReducer cs (DeleteComment pending)) = (True, None)
   \<and> comment_flags (commentReducer cs (DeleteComment (fulfilled i))) = (False, CommentState.error cs)
   \<and> comment_flags (commentReducer cs (DeleteComment (rejected m))) = (False, Some m)
   \<and> auth_flags (authReducer a (RegisterUser pending)) = (True, None)
   \<and> auth_flags (authReducer a (RegisterUser (fulfilled p5))) = (False, AuthState.error a)
   \<and> auth_flags (authReducer a (RegisterUser (rejected m))) = (False, Some m)
   \<and> auth_flags (authReducer a (LoginUser pending)) = (True, None)
   \<and> auth_flags (authReducer a (LoginUser (fulfilled p5))) = (False, AuthState.error a)
   \<and> auth_flags (authReducer a (LoginUser (rejected m))) = (False, Some m)
   \<and> fst (auth_flags (authReducer a (LogoutUser pending))) = True
   \<and> auth_flags (authReducer a (LogoutUser (fulfilled ()))) = (False, AuthState.error a)
   \<and> auth_flags (authReducer a (LogoutUser (rejected m))) = (False, Some m)
   \<and> authReducer a (CheckSession pending) = a
   \<and> auth_flags (authReducer a (CheckSession (fulfilled p5))) = auth_flags a
   \<and> authReducer a (CheckSession (rejected m)) = a"
  by (intro conjI) (simp_all add: blog_flags_def comment_flags_def auth_flags_def Let_def)

section \<open>The authenticated flag\<close>

lemma authReducer_session_consistent:
  "session_consistent a \<Longrightarrow> session_consistent (authReducer a act)"
  by (induction a act rule: authReducer.induct) (simp_all add: session_consistent_def)

lemma reachable_session_consistent:
  "session_consistent a \<Longrightarrow> session_consistent (foldl authReducer a acts)"
  by (induction acts arbitrary: a) (simp_all add: authReducer_session_consistent)

text \<open>
  Claim C10: in every state that the session store reaches from its initial state, and
  so after every completed register, login, logout and session check, the flag
  \<open>isAuthenticated\<close> is true exactly when a raw session is stored; each successful
  operation establishes this from any state. In particular a successful register whose
  answer holds a user and no session stores the user and leaves the flag false.
\<close>

theorem isAuthenticated_iff_session:
  "session_consistent (foldl authReducer authInitialState acts)
   \<and> session_consistent (authReducer a (RegisterUser (fulfilled p)))
   \<and> session_consistent (authReducer a (LoginUser (fulfilled p)))
   \<and> session_consistent (authReducer a (LogoutUser (fulfilled ())))
   \<and> session_consistent (authReducer a (CheckSession (fulfilled p)))
   \<and> (auth_signUp gw e pw = AuthResponse (Some u) None None \<longrightarrow>
        AuthState.user (auth (snd (dispatchRegisterUser gw s e pw))) = Some u
        \<and> AuthState.session (auth (snd (dispatchRegisterUser gw s e pw))) = None
        \<and> \<not> isAuthenticated (auth (snd (dispatchRegisterUser gw s e pw))))"
proof -
  have init: "session_consistent authInitialState"
    by (simp add: session_consistent_def authInitialState_def)
  have reach: "session_consistent (foldl authReducer authInitialState acts)"
    using init by (rule reachable_session_consistent)
  have settled:
    "session_consistent (authReducer a (RegisterUser (fulfilled p)))"
    "session_consistent (authReducer a (LoginUser (fulfilled p)))"
    "session_consistent (authReducer a (LogoutUser (fulfilled ())))"
    "session_consistent (authReducer a (CheckSession (fulfilled p)))"
    by (simp_all add: session_consistent_def)
  have reg: "auth_signUp gw e pw = AuthResponse (Some u) None None \<longrightarrow>
        AuthState.user (auth (snd (dispatchRegisterUser gw s e pw))) = Some u
        \<and> AuthState.session (auth (snd (dispatchRegisterUser gw s e pw))) = None
        \<and> \<not> isAuthenticated (auth (snd (dispatchRegisterUser gw s e pw)))"
    by (simp add: dispatchRegisterUser_def dispatchThunk_def registerUser_def settle_def)
  from reach settled reg show ?thesis by blast
qed

text \<open>
  Sign-up on \<open>gatewayOk\<close> answers with a user and no session; a history of register,
  login and a failed logout ends authenticated and consistent.
\<close>

theorem isAuthenticated_iff_session_witness:
  "auth_signUp gatewayOk ''a@b.c'' ''pw'' = AuthResponse (Some sampleUser) None None
   \<and> AuthState.user (auth (snd (dispatchRegisterUser gatewayOk rootInitialState ''a@b.c'' ''pw'')))
       = Some sampleUser
   \<and> \<not> isAuthenticated
        (auth (snd (dispatchRegisterUser gatewayOk rootInitialState ''a@b.c'' ''pw'')))
   \<and> session_consistent
        (foldl authReducer authInitialState
           [RegisterUser pending,
            RegisterUser (fulfilled \<lparr>AuthPayload.user = Some sampleUser,
                                     AuthPayload.session = None\<rparr>),
            LoginUser pending,
            LoginUser (fulfilled \<lparr>AuthPayload.user = Some sampleUser,
                                  AuthPayload.session = Some sampleSession\<rparr>),
            LogoutUser pending, LogoutUser (rejected ''down'')])
   \<and> isAuthenticated
        (foldl authReducer authInitialState
           [RegisterUser pending,
            RegisterUser (fulfilled \<lparr>AuthPayload.user = Some sampleUser,
                                     AuthPayload.session = None\<rparr>),
            LoginUser pending,
            LoginUser (fulfilled \<lparr>AuthPayload.user = Some sampleUser,
                                  AuthPayload.session = Some sampleSession\<rparr>),
            LogoutUser pending, LogoutUser (rejected ''down'')])"
proof -
  have r: "auth_signUp gatewayOk ''a@b.c'' ''pw'' = AuthResponse (Some sampleUser) None None"
    by (simp add: gatewayOk_def)
  show ?thesis
    using isAuthenticated_iff_session
            [where gw = gatewayOk and e = "''a@b.c''" and pw = "''pw''" and u = sampleUser
               and s = rootInitialState
               and acts = "[RegisterUser pending,
            RegisterUser (fulfilled \<lparr>AuthPayload.user = Some sampleUser,
                                     AuthPayload.session = None\<rparr>),
            LoginUser pending,
            LoginUser (fulfilled \<lparr>AuthPayload.user = Some sampleUser,
                                  AuthPayload.session = Some sampleSession\<rparr>),
            LogoutUser pending, LogoutUser (rejected ''down'')]"]
      r
    by simp
qed

end
